theory Spec2Isabelle
  imports Complex_Main
begin

section \<open>Shared vocabulary\<close>

text \<open>
  The repository declares the status and priority enumerations twice, once in
  \<^verbatim>\<open>app/domain/value_objects.py\<close> and once in
  \<^verbatim>\<open>app/infrastructure/db/models/task.py\<close>, with the same members and values; the
  API converts between them by value. One datatype stands for both copies.
\<close>

datatype TaskStatus = pending | in_progress | completed

datatype TaskPriority = low | medium | high

text \<open>
  Exceptions are values. \<open>ValueError\<close> is what \<^verbatim>\<open>Task.change_status\<close> raises,
  \<open>ValidationError\<close> is pydantic's error, the other two are the application exceptions of
  \<^verbatim>\<open>app/exceptions/base.py\<close>.
\<close>

datatype error = ValueError | ValidationError | NotFoundException | ConflictException

text \<open>
  A \<^verbatim>\<open>datetime\<close> is a point on a discrete time line (microseconds). Every call of
  \<^verbatim>\<open>datetime.now()\<close> is an input of the operation that makes it: the parameter \<open>now\<close>.
\<close>

type_synonym datetime = int

section \<open>The Task entity (app/domain/models/task.py)\<close>

record Task =
  title :: string
  task_list_id :: int
  task_id :: "int option"
  description :: "string option"
  status :: TaskStatus
  priority :: TaskPriority
  user_id :: "int option"
  created_at :: datetime
  updated_at :: datetime

text \<open>
  The dataclass constructor followed by \<^verbatim>\<open>__post_init__\<close>: a timestamp that is not
  passed (\<open>None\<close>) is filled in, \<open>created_at\<close> from the clock and \<open>updated_at\<close> from
  \<open>created_at\<close>; a timestamp that is passed is kept as it is.
\<close>

definition Task_init ::
  "datetime \<Rightarrow> string \<Rightarrow> int \<Rightarrow> int option \<Rightarrow> string option \<Rightarrow> TaskStatus \<Rightarrow> TaskPriority
     \<Rightarrow> int option \<Rightarrow> datetime option \<Rightarrow> datetime option \<Rightarrow> Task" where
  "Task_init now ttl tl_id ident descr st prio uid c_at u_at =
     (let c = (case c_at of None \<Rightarrow> now | Some c' \<Rightarrow> c');
          u = (case u_at of None \<Rightarrow> c | Some u' \<Rightarrow> u')
      in \<lparr>title = ttl, task_list_id = tl_id, task_id = ident, description = descr,
          status = st, priority = prio, user_id = uid, created_at = c, updated_at = u\<rparr>)"

text \<open>The constructor with the dataclass defaults: only title and task list are passed.\<close>

definition Task_default :: "datetime \<Rightarrow> string \<Rightarrow> int \<Rightarrow> Task" where
  "Task_default now ttl tl_id = Task_init now ttl tl_id None None pending medium None None None"

text \<open>The transition table is a dictionary of lists, read with \<^verbatim>\<open>dict.get(key, [])\<close>.\<close>

definition valid_transitions :: "(TaskStatus \<times> TaskStatus list) list" where
  "valid_transitions =
     [(pending, [in_progress, completed]),
      (in_progress, [pending, completed]),
      (completed, [pending, in_progress])]"

definition dict_get :: "('k \<times> 'v) list \<Rightarrow> 'k \<Rightarrow> 'v \<Rightarrow> 'v" where
  "dict_get d k dflt = (case map_of d k of None \<Rightarrow> dflt | Some v \<Rightarrow> v)"

definition is_valid_status_transition :: "TaskStatus \<Rightarrow> TaskStatus \<Rightarrow> bool" where
  "is_valid_status_transition from_status to_status =
     (to_status \<in> set (dict_get valid_transitions from_status []))"

definition change_status :: "datetime \<Rightarrow> Task \<Rightarrow> TaskStatus \<Rightarrow> error + Task" where
  "change_status now self new_status =
     (if \<not> is_valid_status_transition (status self) new_status then Inl ValueError
      else Inr (self\<lparr>status := new_status, updated_at := now\<rparr>))"

definition assign_to_user :: "datetime \<Rightarrow> Task \<Rightarrow> int \<Rightarrow> Task" where
  "assign_to_user now self uid = self\<lparr>user_id := Some uid, updated_at := now\<rparr>"

definition unassign_user :: "datetime \<Rightarrow> Task \<Rightarrow> Task" where
  "unassign_user now self = self\<lparr>user_id := None, updated_at := now\<rparr>"

definition update_title :: "datetime \<Rightarrow> Task \<Rightarrow> string \<Rightarrow> Task" where
  "update_title now self new_title = self\<lparr>title := new_title, updated_at := now\<rparr>"

definition update_description :: "datetime \<Rightarrow> Task \<Rightarrow> string option \<Rightarrow> Task" where
  "update_description now self new_description =
     self\<lparr>description := new_description, updated_at := now\<rparr>"

definition change_priority :: "datetime \<Rightarrow> Task \<Rightarrow> TaskPriority \<Rightarrow> Task" where
  "change_priority now self new_priority = self\<lparr>priority := new_priority, updated_at := now\<rparr>"

definition is_completed :: "Task \<Rightarrow> bool" where
  "is_completed self = (status self = completed)"

definition is_assigned :: "Task \<Rightarrow> bool" where
  "is_assigned self = (user_id self \<noteq> None)"

section \<open>Value objects (app/domain/value_objects.py)\<close>

text \<open>
  A Python \<^verbatim>\<open>str\<close> is a list of code points; the model takes the code points below 256,
  one \<open>char\<close> each. \<^verbatim>\<open>str.strip()\<close> removes the leading and trailing characters
  for which \<^verbatim>\<open>str.isspace\<close> holds: in this range the code points 9 to 13, 28 to 32,
  133 and 160.
\<close>

definition isspace :: "char \<Rightarrow> bool" where
  "isspace c = ((of_char c :: nat) \<in> {9, 10, 11, 12, 13, 28, 29, 30, 31, 32, 133, 160})"

definition strip :: "string \<Rightarrow> string" where
  "strip s = rev (dropWhile isspace (rev (dropWhile isspace s)))"

text \<open>
  \<^verbatim>\<open>TaskTitle\<close> and \<^verbatim>\<open>TaskListName\<close> are pydantic models with one field,
  \<^verbatim>\<open>value: Annotated[str, Field(min_length=1, max_length=N)]\<close>, and a
  \<^verbatim>\<open>@field_validator("value")\<close> in the default mode (after): pydantic first checks the
  length constraints of the field on the string it is given, then calls the validator on that
  string, and turns a \<open>ValueError\<close> of the validator into its own \<open>ValidationError\<close>. The
  value object is represented by the string it stores.
\<close>

definition str_field :: "nat \<Rightarrow> nat \<Rightarrow> string \<Rightarrow> error + string" where
  "str_field min_length max_length v =
     (if length v < min_length \<or> max_length < length v then Inl ValidationError else Inr v)"

definition validate_name :: "string \<Rightarrow> error + string" where
  "validate_name v = (if strip v = [] then Inl ValueError else Inr (strip v))"

definition validate_title :: "string \<Rightarrow> error + string" where
  "validate_title v = (if strip v = [] then Inl ValueError else Inr (strip v))"

definition after_validator :: "(string \<Rightarrow> error + string) \<Rightarrow> error + string \<Rightarrow> error + string" where
  "after_validator f r =
     (case r of
        Inl e \<Rightarrow> Inl e
      | Inr v \<Rightarrow> (case f v of Inl e \<Rightarrow> Inl ValidationError | Inr w \<Rightarrow> Inr w))"

definition TaskListName :: "string \<Rightarrow> error + string" where
  "TaskListName v = after_validator validate_name (str_field 1 100 v)"

definition TaskTitle :: "string \<Rightarrow> error + string" where
  "TaskTitle v = after_validator validate_title (str_field 1 200 v)"

text \<open>
  A Python \<^verbatim>\<open>float\<close> is a binary64 number. The model computes with the rationals and
  rounds the exact result of every float operation with \<open>rnd\<close>, the rounding of the float
  format, which is a parameter. The properties proved below hold for every \<open>rnd\<close> that is
  monotone and leaves the numbers \<open>n / 2 ^ k\<close> with a significand of at most 53 bits as
  they are, as round-to-nearest of binary64 does.
\<close>

type_synonym pyfloat = rat

definition float_rounding :: "(rat \<Rightarrow> pyfloat) \<Rightarrow> bool" where
  "float_rounding rnd =
     (mono rnd \<and>
      (\<forall>n::int. \<forall>k::nat. \<bar>n\<bar> \<le> 2 ^ 53 \<and> k \<le> 1074 \<longrightarrow> rnd (of_int n / 2 ^ k) = of_int n / 2 ^ k))"

text \<open>\<^verbatim>\<open>a / b\<close> on two ints (the caller has excluded \<open>b = 0\<close>) and \<^verbatim>\<open>x * 100\<close>.\<close>

definition int_truediv :: "(rat \<Rightarrow> pyfloat) \<Rightarrow> int \<Rightarrow> int \<Rightarrow> pyfloat" where
  "int_truediv rnd a b = rnd (of_int a / of_int b)"

definition float_mul :: "(rat \<Rightarrow> pyfloat) \<Rightarrow> pyfloat \<Rightarrow> pyfloat \<Rightarrow> pyfloat" where
  "float_mul rnd x y = rnd (x * y)"

text \<open>\<^verbatim>\<open>value: Annotated[float, Field(ge=0, le=100)]\<close>: the constructor checks the range.\<close>

definition CompletionPercentage :: "pyfloat \<Rightarrow> error + pyfloat" where
  "CompletionPercentage v = (if 0 \<le> v \<and> v \<le> 100 then Inr v else Inl ValidationError)"

definition calculate_from_tasks :: "(rat \<Rightarrow> pyfloat) \<Rightarrow> int \<Rightarrow> int \<Rightarrow> error + pyfloat" where
  "calculate_from_tasks rnd total_tasks completed_tasks =
     (if total_tasks = 0 then CompletionPercentage 0
      else let percentage = float_mul rnd (int_truediv rnd completed_tasks total_tasks) 100
           in CompletionPercentage percentage)"

text \<open>
  \<^verbatim>\<open>round(x, ndigits)\<close> on a float: the exact value of \<open>x\<close> is rounded to
  \<open>ndigits\<close> decimals, ties to the even digit, and the decimal result is converted back to
  a float.
\<close>

definition round_half_even :: "rat \<Rightarrow> int" where
  "round_half_even x =
     (let f = \<lfloor>x\<rfloor>; d = x - of_int f
      in if d < 1 / 2 then f else if 1 / 2 < d then f + 1 else if even f then f else f + 1)"

definition py_round :: "(rat \<Rightarrow> pyfloat) \<Rightarrow> pyfloat \<Rightarrow> nat \<Rightarrow> pyfloat" where
  "py_round rnd x ndigits = rnd (of_int (round_half_even (x * 10 ^ ndigits)) / 10 ^ ndigits)"

section \<open>Lifecycle mutations of a task, as one family\<close>

text \<open>
  The six mutating methods of \<^verbatim>\<open>Task\<close>, tagged, so that a statement can range over all
  of them. Only \<open>change_status\<close> can fail.
\<close>

datatype mutation =
    ChangeStatus TaskStatus
  | AssignToUser int
  | UnassignUser
  | UpdateTitle string
  | UpdateDescription "string option"
  | ChangePriority TaskPriority

fun apply_mutation :: "datetime \<Rightarrow> Task \<Rightarrow> mutation \<Rightarrow> error + Task" where
  "apply_mutation now t (ChangeStatus s) = change_status now t s"
| "apply_mutation now t (AssignToUser u) = Inr (assign_to_user now t u)"
| "apply_mutation now t UnassignUser = Inr (unassign_user now t)"
| "apply_mutation now t (UpdateTitle x) = Inr (update_title now t x)"
| "apply_mutation now t (UpdateDescription d) = Inr (update_description now t d)"
| "apply_mutation now t (ChangePriority p) = Inr (change_priority now t p)"

section \<open>The store (app/infrastructure/db)\<close>

text \<open>
  The rows of the tables \<^verbatim>\<open>task_list\<close> and \<^verbatim>\<open>task\<close>, with the columns the use
  cases read and write. The timestamp columns, which the store fills in by itself, are left
  out.
\<close>

record DbTaskList =
  tl_id :: int
  tl_name :: string

record DbTask =
  db_id :: int
  db_title :: string
  db_description :: "string option"
  db_status :: TaskStatus
  db_priority :: TaskPriority
  db_task_list_id :: int
  db_user_id :: "int option"

text \<open>
  A session is the content of the two tables, in table order, together with the trace of
  the calls made on it: every query, \<^verbatim>\<open>add\<close>, \<^verbatim>\<open>commit\<close> and \<^verbatim>\<open>refresh\<close>
  appends one entry.
\<close>

datatype db_call =
    Query_TaskList_by_id int
  | Query_TaskList_by_name string
  | Query_Task_by_id int
  | Query_Tasks_by_task_list_id int nat nat
  | Query_Tasks_with_filters "int option" "int option" "TaskStatus option" "TaskPriority option" nat nat
  | Add_TaskList string
  | Commit
  | Refresh

record Session =
  task_list_table :: "DbTaskList list"
  task_table :: "DbTask list"
  calls :: "db_call list"

definition traced :: "db_call \<Rightarrow> Session \<Rightarrow> Session" where
  "traced c db = db\<lparr>calls := calls db @ [c]\<rparr>"

text \<open>
  \<^verbatim>\<open>query.offset(skip).limit(limit).all()\<close>, for \<open>skip\<close> and \<open>limit\<close> that are not
  negative (what a negative value does depends on the database engine).
\<close>

definition offset_limit :: "nat \<Rightarrow> nat \<Rightarrow> 'a list \<Rightarrow> 'a list" where
  "offset_limit skip limit rows = take limit (drop skip rows)"

subsection \<open>TaskListRepository\<close>

definition TaskListRepository_get_by_id :: "Session \<Rightarrow> int \<Rightarrow> DbTaskList option \<times> Session" where
  "TaskListRepository_get_by_id db entity_id =
     (find (\<lambda>r. tl_id r = entity_id) (task_list_table db),
      traced (Query_TaskList_by_id entity_id) db)"

definition get_by_name :: "Session \<Rightarrow> string \<Rightarrow> DbTaskList option \<times> Session" where
  "get_by_name db name =
     (find (\<lambda>r. tl_name r = name) (task_list_table db), traced (Query_TaskList_by_name name) db)"

text \<open>The primary key the store gives a new row: one that no row of the table has.\<close>

definition fresh_id :: "int list \<Rightarrow> int" where
  "fresh_id ids = fold max ids 0 + 1"

text \<open>
  \<^verbatim>\<open>BaseRepository.create\<close> on a \<^verbatim>\<open>TaskList(name=name)\<close>: \<^verbatim>\<open>add\<close>,
  \<^verbatim>\<open>commit\<close> (the row is written with its new key), \<^verbatim>\<open>refresh\<close> (the entity is
  reloaded from that row) and the entity is returned.
\<close>

definition TaskListRepository_create :: "Session \<Rightarrow> string \<Rightarrow> DbTaskList \<times> Session" where
  "TaskListRepository_create db name =
     (let entity = \<lparr>tl_id = fresh_id (map tl_id (task_list_table db)), tl_name = name\<rparr>;
          db1 = traced (Add_TaskList name) db;
          db2 = traced Commit (db1\<lparr>task_list_table := task_list_table db1 @ [entity]\<rparr>);
          db3 = traced Refresh db2
      in (entity, db3))"

subsection \<open>TaskRepository\<close>

definition get_by_task_list_id :: "Session \<Rightarrow> int \<Rightarrow> nat \<Rightarrow> nat \<Rightarrow> DbTask list \<times> Session" where
  "get_by_task_list_id db task_list_id' skip limit =
     (offset_limit skip limit (filter (\<lambda>t. db_task_list_id t = task_list_id') (task_table db)),
      traced (Query_Tasks_by_task_list_id task_list_id' skip limit) db)"

definition get_tasks_with_filters ::
  "Session \<Rightarrow> int option \<Rightarrow> int option \<Rightarrow> TaskStatus option \<Rightarrow> TaskPriority option \<Rightarrow> nat \<Rightarrow> nat
     \<Rightarrow> DbTask list \<times> Session" where
  "get_tasks_with_filters db task_list_id' user_id' status' priority' skip limit =
     (let query = task_table db;
          query = (case task_list_id' of None \<Rightarrow> query
                   | Some l \<Rightarrow> filter (\<lambda>t. db_task_list_id t = l) query);
          query = (case user_id' of None \<Rightarrow> query
                   | Some u \<Rightarrow> filter (\<lambda>t. db_user_id t = Some u) query);
          query = (case status' of None \<Rightarrow> query
                   | Some s \<Rightarrow> filter (\<lambda>t. db_status t = s) query);
          query = (case priority' of None \<Rightarrow> query
                   | Some p \<Rightarrow> filter (\<lambda>t. db_priority t = p) query)
      in (offset_limit skip limit query,
          traced (Query_Tasks_with_filters task_list_id' user_id' status' priority' skip limit) db))"

section \<open>Use cases (app/use_cases)\<close>

record listing =
  r_tasks :: "DbTask list"
  r_total :: nat
  r_completed :: nat
  r_percent_complete :: pyfloat
  r_pagination :: "nat \<times> nat \<times> nat"

text \<open>
  \<^verbatim>\<open>list_tasks\<close>. The third component of the pagination entry is the number of tasks
  returned. The call \<^verbatim>\<open>task_repo.get_by_task_list_id(task_list_id)\<close> passes neither
  \<open>skip\<close> nor \<open>limit\<close>, so the defaults of the method apply: 0 and 100.
\<close>

definition list_tasks ::
  "(rat \<Rightarrow> pyfloat) \<Rightarrow> Session \<Rightarrow> int \<Rightarrow> TaskStatus option \<Rightarrow> TaskPriority option \<Rightarrow> int option
     \<Rightarrow> nat \<Rightarrow> nat \<Rightarrow> (error + listing) \<times> Session" where
  "list_tasks rnd db task_list_id' status' priority' user_id' skip limit =
     (case TaskListRepository_get_by_id db task_list_id' of
        (None, db1) \<Rightarrow> (Inl NotFoundException, db1)
      | (Some task_list, db1) \<Rightarrow>
          (case get_tasks_with_filters db1 (Some task_list_id') user_id' status' priority' skip limit of
             (tasks, db2) \<Rightarrow>
               (case get_by_task_list_id db2 task_list_id' 0 100 of
                  (all_tasks, db3) \<Rightarrow>
                    (let total = length all_tasks;
                         n_completed = length (filter (\<lambda>t. db_status t = completed) all_tasks);
                         percent_complete =
                           (if total \<noteq> 0
                            then float_mul rnd (int_truediv rnd (int n_completed) (int total)) 100
                            else 0)
                     in (Inr \<lparr>r_tasks = tasks, r_total = total, r_completed = n_completed,
                              r_percent_complete = py_round rnd percent_complete 2,
                              r_pagination = (skip, limit, length tasks)\<rparr>,
                         db3)))))"

definition create_task_list :: "Session \<Rightarrow> string \<Rightarrow> (error + DbTaskList) \<times> Session" where
  "create_task_list db name =
     (case get_by_name db name of
        (Some existing, db1) \<Rightarrow> (Inl ConflictException, db1)
      | (None, db1) \<Rightarrow>
          (case TaskListRepository_create db1 name of (task_list, db2) \<Rightarrow> (Inr task_list, db2)))"

text \<open>
  The two classes named \<^verbatim>\<open>Task\<close>: the dataclass of
  \<^verbatim>\<open>app/domain/models/task.py\<close>, which has no table mapping (nothing in the
  repository maps it), and the mapped class of \<^verbatim>\<open>app/infrastructure/db/models/task.py\<close>.
  \<^verbatim>\<open>Session.query(cls)\<close> is SQLAlchemy's: for a class without a mapping it raises
  \<open>ArgumentError\<close> and nothing is sent to the store; for the mapped class it gives the rows
  of the task table.
\<close>

datatype task_class = Domain_Task | Orm_Task

datatype orm_error = ArgumentError

definition Session_query :: "Session \<Rightarrow> task_class \<Rightarrow> orm_error + DbTask list" where
  "Session_query db cls =
     (case cls of Domain_Task \<Rightarrow> Inl ArgumentError | Orm_Task \<Rightarrow> Inr (task_table db))"

text \<open>
  \<^verbatim>\<open>change_task_status\<close>. The module imports \<^verbatim>\<open>Task\<close> from
  \<^verbatim>\<open>app.domain.models.task\<close>, so the class it passes to \<^verbatim>\<open>db.query\<close> is the
  dataclass. After the query the code filters by key and takes the first row; when there is
  one, its status is assigned, the commit writes the entity back to its row, the refresh
  reloads the entity from that row, and the entity is returned; when there is none,
  \<open>None\<close> is returned. The result is \<open>Inl e\<close> when the exception \<open>e\<close> leaves the
  function.
\<close>

definition change_task_status ::
  "Session \<Rightarrow> int \<Rightarrow> TaskStatus \<Rightarrow> (orm_error + DbTask option) \<times> Session" where
  "change_task_status db ident new_status =
     (case Session_query db Domain_Task of
        Inl e \<Rightarrow> (Inl e, db)
      | Inr rows \<Rightarrow>
          (case (find (\<lambda>t. db_id t = ident) rows, traced (Query_Task_by_id ident) db) of
             (None, db1) \<Rightarrow> (Inr None, db1)
           | (Some task, db1) \<Rightarrow>
               (let task' = task\<lparr>db_status := new_status\<rparr>;
                    db2 = traced Commit
                            (db1\<lparr>task_table :=
                                   map (\<lambda>r. if db_id r = db_id task' then task' else r)
                                     (task_table db1)\<rparr>);
                    db3 = traced Refresh db2
                in (Inr (Some task'), db3))))"

section \<open>Notifications (app/services/notification.py)\<close>

text \<open>
  The service receives a task and a user as objects and reads their attributes while it
  builds the message. Reading an attribute of such an object can raise (the unit tests of
  the service make \<^verbatim>\<open>task.title\<close> raise), so every attribute is either the exception
  its read raises or its value.
\<close>

datatype exn = Exception string

record TaskObj =
  attr_id :: "exn + int"
  attr_title :: "exn + string"
  attr_description :: "exn + string option"
  attr_status :: "exn + TaskStatus"
  attr_priority :: "exn + TaskPriority"

record UserObj =
  attr_email :: "exn + string"
  attr_name :: "exn + string option"

text \<open>
  The logger is the only effect of the service. A log record is a level and a message; a
  message is one constructor for each f-string of the module, holding the interpolated
  values in their order.
\<close>

datatype email_body =
    AssignmentBody string string string TaskStatus TaskPriority
  | UnassignmentBody string string string
  | StatusChangeBody string string string TaskStatus

datatype log_message =
    MockEmailSent string string int
  | MockEmailSentStatus string string int string TaskStatus
  | EmailBody email_body
  | NoUserAssigned int
  | FailedAssignment exn
  | FailedUnassignment exn
  | FailedStatusChange exn

datatype log_level = DEBUG | INFO | ERROR

type_synonym log = "(log_level \<times> log_message) list"

text \<open>Sequencing inside a \<^verbatim>\<open>try\<close> block: the first exception ends the block.\<close>

definition and_then :: "exn + 'a \<Rightarrow> ('a \<Rightarrow> exn + 'b) \<Rightarrow> exn + 'b" where
  "and_then r f = (case r of Inl e \<Rightarrow> Inl e | Inr v \<Rightarrow> f v)"

text \<open>\<^verbatim>\<open>user.name or user.email\<close>: the email is read only when the name is None or empty.\<close>

definition name_or_email :: "UserObj \<Rightarrow> exn + string" where
  "name_or_email user =
     and_then (attr_name user)
       (\<lambda>n. case n of None \<Rightarrow> attr_email user
                     | Some x \<Rightarrow> (if x = [] then attr_email user else Inr x))"

text \<open>\<^verbatim>\<open>task.description or "No description provided"\<close>.\<close>

definition description_or_default :: "TaskObj \<Rightarrow> exn + string" where
  "description_or_default task =
     and_then (attr_description task)
       (\<lambda>d. case d of None \<Rightarrow> Inr ''No description provided''
                     | Some x \<Rightarrow> Inr (if x = [] then ''No description provided'' else x))"

text \<open>
  The body of each \<^verbatim>\<open>try\<close> block, in the order of its attribute reads. Both logger
  calls come after the last read, so the block either raises and logs nothing or logs both
  records.
\<close>

definition assignment_try :: "TaskObj \<Rightarrow> UserObj \<Rightarrow> exn + log" where
  "assignment_try task assigned_user =
     and_then (attr_title task) (\<lambda>t0.
     let subject = ''New Task Assigned: '' @ t0 in
     and_then (name_or_email assigned_user) (\<lambda>who.
     and_then (attr_title task) (\<lambda>t1.
     and_then (description_or_default task) (\<lambda>d.
     and_then (attr_status task) (\<lambda>s.
     and_then (attr_priority task) (\<lambda>p.
     let body = AssignmentBody who t1 d s p in
     and_then (attr_email assigned_user) (\<lambda>to.
     and_then (attr_id task) (\<lambda>i.
     Inr [(INFO, MockEmailSent to subject i), (DEBUG, EmailBody body)]))))))))"

definition send_task_assignment_notification :: "log \<Rightarrow> TaskObj \<Rightarrow> UserObj \<Rightarrow> (exn + bool) \<times> log" where
  "send_task_assignment_notification lg task assigned_user =
     (case assignment_try task assigned_user of
        Inr records \<Rightarrow> (Inr True, lg @ records)
      | Inl e \<Rightarrow> (Inr False, lg @ [(ERROR, FailedAssignment e)]))"

definition unassignment_try :: "TaskObj \<Rightarrow> UserObj \<Rightarrow> exn + log" where
  "unassignment_try task unassigned_user =
     and_then (attr_title task) (\<lambda>t0.
     let subject = ''Task Unassigned: '' @ t0 in
     and_then (name_or_email unassigned_user) (\<lambda>who.
     and_then (attr_title task) (\<lambda>t1.
     and_then (description_or_default task) (\<lambda>d.
     let body = UnassignmentBody who t1 d in
     and_then (attr_email unassigned_user) (\<lambda>to.
     and_then (attr_id task) (\<lambda>i.
     Inr [(INFO, MockEmailSent to subject i), (DEBUG, EmailBody body)]))))))"

definition send_task_unassignment_notification :: "log \<Rightarrow> TaskObj \<Rightarrow> UserObj \<Rightarrow> (exn + bool) \<times> log" where
  "send_task_unassignment_notification lg task unassigned_user =
     (case unassignment_try task unassigned_user of
        Inr records \<Rightarrow> (Inr True, lg @ records)
      | Inl e \<Rightarrow> (Inr False, lg @ [(ERROR, FailedUnassignment e)]))"

definition status_change_try :: "TaskObj \<Rightarrow> string \<Rightarrow> UserObj \<Rightarrow> exn + log" where
  "status_change_try task old_status assigned_user =
     and_then (attr_title task) (\<lambda>t0.
     let subject = ''Task Status Updated: '' @ t0 in
     and_then (name_or_email assigned_user) (\<lambda>who.
     and_then (attr_title task) (\<lambda>t1.
     and_then (attr_status task) (\<lambda>s0.
     let body = StatusChangeBody who t1 old_status s0 in
     and_then (attr_email assigned_user) (\<lambda>to.
     and_then (attr_id task) (\<lambda>i.
     and_then (attr_status task) (\<lambda>s1.
     Inr [(INFO, MockEmailSentStatus to subject i old_status s1), (DEBUG, EmailBody body)])))))))"

text \<open>
  The result is \<open>Inr b\<close> when the function returns the boolean \<open>b\<close> and \<open>Inl e\<close> when
  the exception \<open>e\<close> leaves the function. The branch for a missing user stands before the
  \<^verbatim>\<open>try\<close> block; its log call interpolates \<^verbatim>\<open>task.id\<close>.
\<close>

definition send_task_status_change_notification ::
  "log \<Rightarrow> TaskObj \<Rightarrow> string \<Rightarrow> UserObj option \<Rightarrow> (exn + bool) \<times> log" where
  "send_task_status_change_notification lg task old_status assigned_user =
     (case assigned_user of
        None \<Rightarrow>
          (case attr_id task of
             Inl e \<Rightarrow> (Inl e, lg)
           | Inr i \<Rightarrow> (Inr True, lg @ [(DEBUG, NoUserAssigned i)]))
      | Some user \<Rightarrow>
          (case status_change_try task old_status user of
             Inr records \<Rightarrow> (Inr True, lg @ records)
           | Inl e \<Rightarrow> (Inr False, lg @ [(ERROR, FailedStatusChange e)])))"

section \<open>Sample data\<close>

text \<open>A store with one task list and one pending task in it.\<close>

definition db0 :: Session where
  "db0 = \<lparr>task_list_table = [\<lparr>tl_id = 1, tl_name = ''Sprint 1''\<rparr>],
          task_table = [\<lparr>db_id = 1, db_title = ''Fix bug'', db_description = None,
                         db_status = pending, db_priority = medium, db_task_list_id = 1,
                         db_user_id = None\<rparr>],
          calls = []\<rparr>"

text \<open>
  A store whose only task list holds 101 tasks of medium priority: the first 100 pending,
  the last one completed.
\<close>

definition task_101 :: "int \<Rightarrow> DbTask" where
  "task_101 k = \<lparr>db_id = k, db_title = ''Fix bug'', db_description = None,
                 db_status = (if k = 101 then completed else pending),
                 db_priority = medium, db_task_list_id = 1, db_user_id = None\<rparr>"

definition db_101 :: Session where
  "db_101 = \<lparr>task_list_table = [\<lparr>tl_id = 1, tl_name = ''Sprint 1''\<rparr>],
             task_table = map task_101 [1..101], calls = []\<rparr>"

text \<open>
  A task object every attribute read of which raises, a task object that is loaded, and a
  user.
\<close>

definition detached_task :: TaskObj where
  "detached_task =
     \<lparr>attr_id = Inl (Exception ''Database error''),
      attr_title = Inl (Exception ''Database error''),
      attr_description = Inl (Exception ''Database error''),
      attr_status = Inl (Exception ''Database error''),
      attr_priority = Inl (Exception ''Database error'')\<rparr>"

definition loaded_task :: TaskObj where
  "loaded_task =
     \<lparr>attr_id = Inr 1, attr_title = Inr ''Test Task'', attr_description = Inr None,
      attr_status = Inr completed, attr_priority = Inr high\<rparr>"

definition test_user :: UserObj where
  "test_user = \<lparr>attr_email = Inr ''user@example.com'', attr_name = Inr (Some ''Test User'')\<rparr>"

section \<open>Status transitions\<close>

lemma is_valid_status_transition_iff:
  "is_valid_status_transition a b = (a \<noteq> b)"
  by (cases a; cases b) (simp_all add: is_valid_status_transition_def dict_get_def valid_transitions_def)

text \<open>
  C1. For every task, clock reading and pair of statuses, \<open>change_status\<close> succeeds exactly
  when the target is in the successor list of the current status (pending to in_progress or
  completed, in_progress to pending or completed, completed to pending or in_progress). Every
  self-transition fails; the exception the code raises for a refused transition is
  \<open>ValueError\<close>. On success the status of the task is the target.
\<close>

theorem change_status_transition_table:
  "((\<exists>t'. change_status now t to = Inr t') =
      ((status t, to) \<in> {(pending, in_progress), (pending, completed),
                         (in_progress, pending), (in_progress, completed),
                         (completed, pending), (completed, in_progress)}))
   \<and> ((\<nexists>t'. change_status now t to = Inr t') = (change_status now t to = Inl ValueError))
   \<and> change_status now t (status t) = Inl ValueError
   \<and> (\<forall>t'. change_status now t to = Inr t' \<longrightarrow> status t' = to)"
  by (cases "status t"; cases to)
     (auto simp add: change_status_def is_valid_status_transition_iff)

theorem change_status_transition_table_witness:
  "change_status 7 (Task_default 3 ''Fix bug'' 1) in_progress
     = Inr ((Task_default 3 ''Fix bug'' 1)\<lparr>status := in_progress, updated_at := 7\<rparr>)
   \<and> status ((Task_default 3 ''Fix bug'' 1)\<lparr>status := in_progress, updated_at := 7\<rparr>) = in_progress
   \<and> change_status 7 (Task_default 3 ''Fix bug'' 1) pending = Inl ValueError"
  using change_status_transition_table
          [of 7 "Task_default 3 ''Fix bug'' 1" in_progress]
  by (simp add: change_status_def is_valid_status_transition_iff Task_default_def Task_init_def)

section \<open>Assignment\<close>

text \<open>
  C7. For every task, user id and pair of clock readings, assigning the task to the user and
  then unassigning it leaves \<open>user_id\<close> empty and leaves title, priority and status as they
  were before the two operations.
\<close>

theorem assign_then_unassign:
  "user_id (unassign_user now2 (assign_to_user now1 t uid)) = None
   \<and> title (unassign_user now2 (assign_to_user now1 t uid)) = title t
   \<and> priority (unassign_user now2 (assign_to_user now1 t uid)) = priority t
   \<and> status (unassign_user now2 (assign_to_user now1 t uid)) = status t"
  by (simp add: unassign_user_def assign_to_user_def)

section \<open>Timestamps\<close>

text \<open>
  C6 (as amended). A task constructed without an explicit \<open>updated_at\<close> has
  \<open>updated_at = created_at\<close>. Every successful lifecycle mutation (status change,
  assignment, unassignment, title, description or priority update) made at the clock reading
  \<open>now'\<close> sets \<open>updated_at\<close> to \<open>now'\<close> and leaves \<open>created_at\<close> as it is; so
  \<open>updated_at \<ge> created_at\<close> holds afterwards whenever the clock reading is not before
  \<open>created_at\<close>, and \<open>updated_at\<close> strictly increases exactly when the clock reading is
  later than the previous \<open>updated_at\<close>.
\<close>

theorem updated_at_follows_clock:
  "updated_at (Task_init now ttl l i d s p u c None) = created_at (Task_init now ttl l i d s p u c None)
   \<and> (\<forall>t'. apply_mutation now' t m = Inr t' \<longrightarrow>
          updated_at t' = now' \<and> created_at t' = created_at t
          \<and> (created_at t \<le> now' \<longrightarrow> created_at t' \<le> updated_at t')
          \<and> ((updated_at t < updated_at t') = (updated_at t < now')))"
  by (cases m) (auto simp: Task_init_def Let_def change_status_def assign_to_user_def
      unassign_user_def update_title_def update_description_def change_priority_def
      split: if_splits)

theorem updated_at_follows_clock_witness:
  "apply_mutation 9 (Task_default 5 ''Fix bug'' 1) (ChangeStatus in_progress)
     = Inr ((Task_default 5 ''Fix bug'' 1)\<lparr>status := in_progress, updated_at := 9\<rparr>)
   \<and> created_at (Task_default 5 ''Fix bug'' 1) \<le> 9
   \<and> updated_at ((Task_default 5 ''Fix bug'' 1)\<lparr>status := in_progress, updated_at := 9\<rparr>) = 9
   \<and> updated_at (Task_default 5 ''Fix bug'' 1)
       < updated_at ((Task_default 5 ''Fix bug'' 1)\<lparr>status := in_progress, updated_at := 9\<rparr>)"
  using updated_at_follows_clock
          [of 5 "''Fix bug''" 1 None None pending medium None None
              9 "Task_default 5 ''Fix bug'' 1" "ChangeStatus in_progress"]
  by (simp add: change_status_def is_valid_status_transition_iff Task_default_def Task_init_def)

text \<open>
  The claim as stated fails twice. A task constructed with both timestamps given, the
  second before the first, has \<open>updated_at < created_at\<close>; and an assignment made at a clock
  reading equal to the current \<open>updated_at\<close> succeeds without increasing it.
\<close>

theorem updated_at_counterexample:
  "\<not> created_at (Task_init 0 ''Fix bug'' 1 None None pending medium None (Some 10) (Some 5))
       \<le> updated_at (Task_init 0 ''Fix bug'' 1 None None pending medium None (Some 10) (Some 5))
   \<and> apply_mutation 5 (Task_default 5 ''Fix bug'' 1) (AssignToUser 42)
       = Inr (assign_to_user 5 (Task_default 5 ''Fix bug'' 1) 42)
   \<and> \<not> updated_at (Task_default 5 ''Fix bug'' 1)
         < updated_at (assign_to_user 5 (Task_default 5 ''Fix bug'' 1) 42)"
  by (simp add: Task_init_def Task_default_def assign_to_user_def)

section \<open>Title and task list name\<close>

lemma strip_Nil: "strip [] = []"
  by (simp add: strip_def)

lemma length_strip: "length (strip s) \<le> length s"
proof -
  have "length (strip s) \<le> length (dropWhile isspace s)"
    unfolding strip_def by (metis length_dropWhile_le length_rev)
  also have "\<dots> \<le> length s" by (rule length_dropWhile_le)
  finally show ?thesis .
qed

text \<open>
  C4 (as amended). For every string, constructing a \<open>TaskTitle\<close> (maximum 200) or a
  \<open>TaskListName\<close> (maximum 100) fails with \<open>ValidationError\<close> if and only if the string
  is empty after trimming or the string as given, before trimming, is longer than the
  maximum. Otherwise the construction succeeds and stores the trimmed string; in particular
  a string of exactly the maximum length that is not blank is accepted.
\<close>

theorem value_object_construction:
  "TaskTitle s = (if strip s = [] \<or> 200 < length s then Inl ValidationError else Inr (strip s))
   \<and> TaskListName s = (if strip s = [] \<or> 100 < length s then Inl ValidationError else Inr (strip s))"
  by (auto simp: TaskTitle_def TaskListName_def after_validator_def str_field_def
        validate_title_def validate_name_def strip_Nil)

theorem value_object_construction_witness:
  "TaskTitle (replicate 200 CHR ''x'') = Inr (replicate 200 CHR ''x'')
   \<and> TaskListName ''  Sprint 1  '' = Inr ''Sprint 1''
   \<and> TaskListName ''   '' = Inl ValidationError"
  using value_object_construction [of "replicate 200 CHR ''x''"]
        value_object_construction [of "''  Sprint 1  ''"]
        value_object_construction [of "''   ''"]
  by code_simp

text \<open>
  The claim as stated fails on a string whose trimmed form has exactly the maximum length
  while the string itself is longer: 200 (or 100) letters followed by one space are refused.
\<close>

theorem value_object_trimmed_length_counterexample:
  "strip (replicate 200 CHR ''x'' @ '' '') \<noteq> []
   \<and> length (strip (replicate 200 CHR ''x'' @ '' '')) = 200
   \<and> TaskTitle (replicate 200 CHR ''x'' @ '' '') = Inl ValidationError
   \<and> strip (replicate 100 CHR ''x'' @ '' '') \<noteq> []
   \<and> length (strip (replicate 100 CHR ''x'' @ '' '')) = 100
   \<and> TaskListName (replicate 100 CHR ''x'' @ '' '') = Inl ValidationError"
  by code_simp

section \<open>Completion percentage\<close>

lemma float_rounding_exact:
  assumes "float_rounding rnd"
  shows "rnd 0 = 0" "rnd 1 = 1" "rnd 100 = 100" "rnd (1 / 2) = 1 / 2" "rnd 50 = 50"
proof -
  have ex: "\<And>n k. \<bar>n\<bar> \<le> 2 ^ 53 \<Longrightarrow> k \<le> 1074 \<Longrightarrow> rnd (of_int n / 2 ^ k) = of_int n / 2 ^ k"
    using assms by (simp add: float_rounding_def)
  show "rnd 0 = 0" using ex [of 0 0] by simp
  show "rnd 1 = 1" using ex [of 1 0] by simp
  show "rnd 100 = 100" using ex [of 100 0] by simp
  show "rnd (1 / 2) = 1 / 2" using ex [of 1 1] by simp
  show "rnd 50 = 50" using ex [of 50 0] by simp
qed

lemma float_rounding_id: "float_rounding (\<lambda>x. x)"
  by (simp add: float_rounding_def mono_def)

lemma percentage_range:
  assumes fr: "float_rounding rnd" and c: "0 \<le> c" "c \<le> t" and t: "t \<noteq> 0"
  shows "0 \<le> float_mul rnd (int_truediv rnd c t) 100
         \<and> float_mul rnd (int_truediv rnd c t) 100 \<le> 100"
proof -
  have m: "\<And>x y. x \<le> y \<Longrightarrow> rnd x \<le> rnd y"
    using fr by (simp add: float_rounding_def mono_def)
  have tpos: "0 < t" using c t by linarith
  have q0: "(0::rat) \<le> of_int c / of_int t" using c tpos by simp
  have q1: "of_int c / of_int t \<le> (1::rat)" using c tpos by simp
  have r0: "0 \<le> int_truediv rnd c t"
    using m [OF q0] float_rounding_exact(1) [OF fr] by (simp add: int_truediv_def)
  have r1: "int_truediv rnd c t \<le> 1"
    using m [OF q1] float_rounding_exact(2) [OF fr] by (simp add: int_truediv_def)
  have p0: "0 \<le> int_truediv rnd c t * 100" using r0 by simp
  have p1: "int_truediv rnd c t * 100 \<le> 100" using r1 by simp
  show ?thesis
    using m [OF p0] m [OF p1] float_rounding_exact(1,3) [OF fr]
    by (simp add: float_mul_def)
qed

text \<open>
  C5. For all integers \<open>0 \<le> completed \<le> total\<close>, \<open>calculate_from_tasks\<close> returns 0 when
  the total is 0 and otherwise the value of the float expression
  \<^verbatim>\<open>(completed / total) * 100\<close>, that is the rounded product with 100 of the rounded
  quotient; the result lies in \<open>[0, 100]\<close>; the three sample calls give 0, 50 and 100; and
  constructing a \<open>CompletionPercentage\<close> directly from a value outside \<open>[0, 100]\<close> fails.
  This holds for every rounding \<open>rnd\<close> of the float format that satisfies
  \<open>float_rounding\<close>.
\<close>

theorem calculate_from_tasks_correct:
  "float_rounding rnd \<Longrightarrow> 0 \<le> completed_tasks \<Longrightarrow> completed_tasks \<le> total_tasks \<Longrightarrow>
     calculate_from_tasks rnd total_tasks completed_tasks =
       Inr (if total_tasks = 0 then 0
            else rnd (rnd (of_int completed_tasks / of_int total_tasks) * 100))
     \<and> (\<forall>p. calculate_from_tasks rnd total_tasks completed_tasks = Inr p \<longrightarrow> 0 \<le> p \<and> p \<le> 100)
     \<and> calculate_from_tasks rnd 0 0 = Inr 0
     \<and> calculate_from_tasks rnd 4 2 = Inr 50
     \<and> calculate_from_tasks rnd 3 3 = Inr 100
     \<and> (\<forall>v. v < 0 \<or> 100 < v \<longrightarrow> CompletionPercentage v = Inl ValidationError)"
proof -
  assume fr: "float_rounding rnd"
    and c: "0 \<le> completed_tasks" "completed_tasks \<le> total_tasks"
  note ex = float_rounding_exact [OF fr]
  have main: "calculate_from_tasks rnd total_tasks completed_tasks =
       Inr (if total_tasks = 0 then 0
            else rnd (rnd (of_int completed_tasks / of_int total_tasks) * 100))"
  proof (cases "total_tasks = 0")
    case True
    then show ?thesis by (simp add: calculate_from_tasks_def CompletionPercentage_def)
  next
    case False
    from percentage_range [OF fr c False] show ?thesis
      using False by (simp add: calculate_from_tasks_def CompletionPercentage_def Let_def
          float_mul_def int_truediv_def)
  qed
  have range: "\<forall>p. calculate_from_tasks rnd total_tasks completed_tasks = Inr p
                 \<longrightarrow> 0 \<le> p \<and> p \<le> 100"
    by (auto simp: calculate_from_tasks_def CompletionPercentage_def Let_def split: if_splits)
  have e0: "calculate_from_tasks rnd 0 0 = Inr 0"
    by (simp add: calculate_from_tasks_def CompletionPercentage_def)
  have e1: "calculate_from_tasks rnd 4 2 = Inr 50"
  proof -
    have a: "(of_int 2 / of_int 4 :: rat) = 1 / 2" by simp
    have b: "int_truediv rnd 2 4 = 1 / 2"
      unfolding int_truediv_def a by (rule ex(4))
    have c: "float_mul rnd (1 / 2) 100 = 50"
      unfolding float_mul_def using ex(5) by simp
    show ?thesis
      unfolding calculate_from_tasks_def Let_def b c by (simp add: CompletionPercentage_def)
  qed
  have e2: "calculate_from_tasks rnd 3 3 = Inr 100"
    using ex by (simp add: calculate_from_tasks_def CompletionPercentage_def Let_def
          float_mul_def int_truediv_def)
  have d: "\<forall>v. v < 0 \<or> 100 < v \<longrightarrow> CompletionPercentage v = Inl ValidationError"
    by (auto simp: CompletionPercentage_def)
  show ?thesis using main range e0 e1 e2 d by blast
qed

theorem calculate_from_tasks_correct_witness:
  "(0::int) \<le> 1 \<and> (1::int) \<le> 8
   \<and> calculate_from_tasks (\<lambda>x. x) 8 1 = Inr (25 / 2)
   \<and> CompletionPercentage (101 :: rat) = Inl ValidationError"
  using calculate_from_tasks_correct [of "\<lambda>x. x" 1 8] float_rounding_id by simp

section \<open>Listing the tasks of a task list\<close>

lemma list_tasks_calls:
  "\<exists>rest. calls (snd (list_tasks rnd db i st pr u skip limit))
            = calls db @ Query_TaskList_by_id i # rest"
proof (cases "find (\<lambda>r. tl_id r = i) (task_list_table db)")
  case None
  then show ?thesis
    by (simp add: list_tasks_def TaskListRepository_get_by_id_def traced_def)
next
  case (Some a)
  then show ?thesis
    by (simp add: list_tasks_def TaskListRepository_get_by_id_def traced_def
      get_tasks_with_filters_def get_by_task_list_id_def Let_def)
qed

text \<open>
  C3. When no task list has the given id, \<open>list_tasks\<close> fails with
  \<open>NotFoundException\<close>, whatever the filters, \<open>skip\<close> and \<open>limit\<close>, and the only
  call it has made on the session is the lookup of the task list: no task query follows. On
  every input the lookup of the task list is the first call made.
\<close>

theorem list_tasks_missing_task_list:
  "\<forall>r \<in> set (task_list_table db). tl_id r \<noteq> i \<Longrightarrow>
     list_tasks rnd db i st pr u skip limit
       = (Inl NotFoundException, db\<lparr>calls := calls db @ [Query_TaskList_by_id i]\<rparr>)
     \<and> (\<exists>rest. calls (snd (list_tasks rnd db' j st' pr' u' skip' limit'))
                 = calls db' @ Query_TaskList_by_id j # rest)"
proof -
  assume a: "\<forall>r \<in> set (task_list_table db). tl_id r \<noteq> i"
  have n: "find (\<lambda>r. tl_id r = i) (task_list_table db) = None"
    using a by (simp add: find_None_iff)
  have "list_tasks rnd db i st pr u skip limit
       = (Inl NotFoundException, db\<lparr>calls := calls db @ [Query_TaskList_by_id i]\<rparr>)"
    by (simp add: list_tasks_def TaskListRepository_get_by_id_def traced_def n)
  then show ?thesis using list_tasks_calls by blast
qed

theorem list_tasks_missing_task_list_witness:
  "2 \<notin> set (map tl_id (task_list_table db0))
   \<and> list_tasks (\<lambda>x. x) db0 2 (Some pending) None None 0 10
       = (Inl NotFoundException, db0\<lparr>calls := [Query_TaskList_by_id 2]\<rparr>)"
  using list_tasks_missing_task_list
          [of db0 2 "\<lambda>x. x" "Some pending" None None 0 10 db0 2 None None None 0 10]
  by (simp add: db0_def)

text \<open>
  What \<open>list_tasks\<close> counts, for an existing task list: the rows that the second task
  query returns, which are at most 100.
\<close>

lemma list_tasks_total:
  "find (\<lambda>r. tl_id r = i) (task_list_table db) = Some lst \<Longrightarrow>
   \<exists>res. fst (list_tasks rnd db i st pr u skip limit) = Inr res
     \<and> r_total res = min 100 (length (filter (\<lambda>t. db_task_list_id t = i) (task_table db)))
     \<and> r_completed res = length (filter (\<lambda>t. db_status t = completed)
                              (take 100 (filter (\<lambda>t. db_task_list_id t = i) (task_table db))))"
  by (simp add: list_tasks_def TaskListRepository_get_by_id_def traced_def
      get_tasks_with_filters_def get_by_task_list_id_def Let_def offset_limit_def min_def)

lemma db_101_size:
  "length (filter (\<lambda>t. db_task_list_id t = 1) (task_table db_101)) = 101"
  by code_simp

lemma db_101_completed:
  "length (filter (\<lambda>t. db_task_list_id t = 1 \<and> db_status t = completed) (task_table db_101)) = 1"
  by code_simp

lemma db_101_aggregates:
  "map_sum id (\<lambda>res. (r_total res, r_completed res, r_percent_complete res))
     (fst (list_tasks (\<lambda>x. x) db_101 1 None (Some medium) None 0 1000)) = Inr (100, 0, 0)"
  by code_simp

lemma db_101_page:
  "map_sum id (\<lambda>res. length (r_tasks res))
     (fst (list_tasks (\<lambda>x. x) db_101 1 None (Some medium) None 0 1000)) = Inr 101"
  by code_simp

text \<open>
  C2 (the code at a task list of 101 tasks). The task list of \<open>db_101\<close> has 101 tasks, one
  of them completed. \<open>list_tasks\<close> with the priority filter \<open>medium\<close>, \<open>skip = 0\<close>
  and \<open>limit = 1000\<close> returns a page of 101 tasks, and reports a total of 100, 0 completed
  tasks and 0 percent: the aggregates are computed over the first 100 rows of the list, not
  over all of its tasks.
\<close>

theorem list_tasks_total_capped:
  "length (filter (\<lambda>t. db_task_list_id t = 1) (task_table db_101)) = 101
   \<and> length (filter (\<lambda>t. db_task_list_id t = 1 \<and> db_status t = completed) (task_table db_101)) = 1
   \<and> map_sum id (\<lambda>res. length (r_tasks res))
        (fst (list_tasks (\<lambda>x. x) db_101 1 None (Some medium) None 0 1000)) = Inr 101
   \<and> map_sum id (\<lambda>res. (r_total res, r_completed res, r_percent_complete res))
        (fst (list_tasks (\<lambda>x. x) db_101 1 None (Some medium) None 0 1000)) = Inr (100, 0, 0)"
  using db_101_size db_101_completed db_101_page db_101_aggregates by blast

section \<open>Creating a task list\<close>

lemma fold_max_start: "(b::int) \<le> fold max ys b"
proof (induction ys arbitrary: b)
  case Nil show ?case by simp
next
  case (Cons z zs)
  have "b \<le> max z b" by simp
  also have "\<dots> \<le> fold max zs (max z b)" by (rule Cons.IH)
  finally show ?case by simp
qed

lemma fold_max_ge: "(x::int) \<in> set xs \<Longrightarrow> x \<le> fold max xs a"
proof (induction xs arbitrary: a)
  case Nil then show ?case by simp
next
  case (Cons y ys)
  show ?case
  proof (cases "x = y")
    case True
    have "y \<le> max y a" by simp
    also have "\<dots> \<le> fold max ys (max y a)" by (rule fold_max_start)
    finally show ?thesis using True by simp
  next
    case False
    then have "x \<in> set ys" using Cons.prems by simp
    then show ?thesis using Cons.IH by simp
  qed
qed

lemma fresh_id_new: "fresh_id ids \<notin> set ids"
proof
  assume "fresh_id ids \<in> set ids"
  then have "fresh_id ids \<le> fold max ids 0" by (rule fold_max_ge)
  then show False by (simp add: fresh_id_def)
qed

lemma find_Some_set: "find P xs = Some x \<Longrightarrow> x \<in> set xs \<and> P x"
  by (induction xs) (auto split: if_splits)

text \<open>
  C8. For every name, \<open>create_task_list\<close> fails with \<open>ConflictException\<close> when a task
  list with that name exists, and then the table of task lists is unchanged; when no task
  list has the name it succeeds, and the table is the old one followed by the new row, which
  carries the name and a key that no old row has.
\<close>

theorem create_task_list_conflict:
  "((\<exists>r \<in> set (task_list_table db). tl_name r = n) \<longrightarrow>
       fst (create_task_list db n) = Inl ConflictException
       \<and> task_list_table (snd (create_task_list db n)) = task_list_table db)
   \<and> ((\<forall>r \<in> set (task_list_table db). tl_name r \<noteq> n) \<longrightarrow>
       (\<exists>row. fst (create_task_list db n) = Inr row \<and> tl_name row = n
              \<and> tl_id row \<notin> set (map tl_id (task_list_table db))
              \<and> task_list_table (snd (create_task_list db n)) = task_list_table db @ [row]))"
proof (cases "find (\<lambda>r. tl_name r = n) (task_list_table db)")
  case None
  then have no: "\<forall>r \<in> set (task_list_table db). tl_name r \<noteq> n"
    by (simp add: find_None_iff)
  have res: "create_task_list db n =
     (Inr \<lparr>tl_id = fresh_id (map tl_id (task_list_table db)), tl_name = n\<rparr>,
      snd (create_task_list db n))"
    using None by (simp add: create_task_list_def get_by_name_def TaskListRepository_create_def
        traced_def Let_def)
  have tab: "task_list_table (snd (create_task_list db n)) =
     task_list_table db @ [\<lparr>tl_id = fresh_id (map tl_id (task_list_table db)), tl_name = n\<rparr>]"
    using None by (simp add: create_task_list_def get_by_name_def TaskListRepository_create_def
        traced_def Let_def)
  have fr: "fresh_id (map tl_id (task_list_table db)) \<notin> set (map tl_id (task_list_table db))"
    by (rule fresh_id_new)
  have "\<exists>row. fst (create_task_list db n) = Inr row \<and> tl_name row = n
              \<and> tl_id row \<notin> set (map tl_id (task_list_table db))
              \<and> task_list_table (snd (create_task_list db n)) = task_list_table db @ [row]"
  proof (intro exI conjI)
    show "fst (create_task_list db n)
            = Inr \<lparr>tl_id = fresh_id (map tl_id (task_list_table db)), tl_name = n\<rparr>"
      using res by (metis fst_conv)
    show "tl_name \<lparr>tl_id = fresh_id (map tl_id (task_list_table db)), tl_name = n\<rparr> = n"
      by simp
    show "tl_id \<lparr>tl_id = fresh_id (map tl_id (task_list_table db)), tl_name = n\<rparr>
            \<notin> set (map tl_id (task_list_table db))" using fr by simp
    show "task_list_table (snd (create_task_list db n)) =
      task_list_table db @ [\<lparr>tl_id = fresh_id (map tl_id (task_list_table db)), tl_name = n\<rparr>]"
      by (rule tab)
  qed
  then show ?thesis using no by blast
next
  case (Some e)
  then have ex: "\<exists>r \<in> set (task_list_table db). tl_name r = n"
    using find_Some_set by fastforce
  have "fst (create_task_list db n) = Inl ConflictException
       \<and> task_list_table (snd (create_task_list db n)) = task_list_table db"
    using Some by (simp add: create_task_list_def get_by_name_def traced_def)
  then show ?thesis using ex by blast
qed

theorem create_task_list_conflict_witness:
  "''Sprint 1'' \<in> set (map tl_name (task_list_table db0))
   \<and> fst (create_task_list db0 ''Sprint 1'') = Inl ConflictException
   \<and> task_list_table (snd (create_task_list db0 ''Sprint 1'')) = task_list_table db0
   \<and> ''Sprint 2'' \<notin> set (map tl_name (task_list_table db0))
   \<and> fst (create_task_list db0 ''Sprint 2'') = Inr \<lparr>tl_id = 2, tl_name = ''Sprint 2''\<rparr>
   \<and> task_list_table (snd (create_task_list db0 ''Sprint 2''))
       = task_list_table db0 @ [\<lparr>tl_id = 2, tl_name = ''Sprint 2''\<rparr>]"
  using create_task_list_conflict [of db0 "''Sprint 1''"]
        create_task_list_conflict [of db0 "''Sprint 2''"]
  by (simp add: db0_def create_task_list_def get_by_name_def TaskListRepository_create_def
        traced_def Let_def fresh_id_def)

section \<open>The change-status use case\<close>

text \<open>
  C10 (the code as written). \<open>change_task_status\<close> queries the class \<^verbatim>\<open>Task\<close>
  that its module imports, the dataclass without a mapping. For every store, key and target
  status the query raises \<open>ArgumentError\<close>: the function returns neither a task nor
  \<open>None\<close>, no status is assigned, and the store, with its trace of calls, is as before.
  In particular this is what happens for the pending task 1 of \<open>db0\<close> and the target
  \<open>completed\<close>.
\<close>

theorem change_task_status_raises:
  "change_task_status db ident new_status = (Inl ArgumentError, db)
   \<and> change_task_status db0 1 completed = (Inl ArgumentError, db0)
   \<and> find (\<lambda>t. db_id t = 1) (task_table db0) \<noteq> None"
  by (simp add: change_task_status_def Session_query_def db0_def)

section \<open>Notifications\<close>

text \<open>
  Where the attribute reads are inside the \<^verbatim>\<open>try\<close> block the function returns a boolean,
  \<open>False\<close> exactly when a read raised.
\<close>

lemma assignment_returns_bool:
  "fst (send_task_assignment_notification lg task u) = Inr (\<not> isl (assignment_try task u))"
  by (cases "assignment_try task u") (simp_all add: send_task_assignment_notification_def)

lemma unassignment_returns_bool:
  "fst (send_task_unassignment_notification lg task u) = Inr (\<not> isl (unassignment_try task u))"
  by (cases "unassignment_try task u") (simp_all add: send_task_unassignment_notification_def)

lemma status_change_with_user_returns_bool:
  "fst (send_task_status_change_notification lg task old (Some u))
     = Inr (\<not> isl (status_change_try task old u))"
  by (cases "status_change_try task old u")
     (simp_all add: send_task_status_change_notification_def)

lemma status_change_no_user:
  "send_task_status_change_notification lg task old None =
     (case attr_id task of
        Inl e \<Rightarrow> (Inl e, lg)
      | Inr i \<Rightarrow> (Inr True, lg @ [(DEBUG, NoUserAssigned i)]))"
  by (simp add: send_task_status_change_notification_def)

text \<open>
  C9 (the code at a task whose attribute reads raise). With a user, each of the three
  functions catches the exception, logs it and returns \<open>False\<close>. Without a user,
  \<open>send_task_status_change_notification\<close> reads \<^verbatim>\<open>task.id\<close> for its log message
  before the \<^verbatim>\<open>try\<close> block: the exception leaves the function and nothing is logged.
  On a loaded task the same call returns \<open>True\<close> and logs one debug record.
\<close>

theorem status_change_no_user_raises:
  "send_task_status_change_notification [] detached_task ''in_progress'' None
     = (Inl (Exception ''Database error''), [])
   \<and> send_task_status_change_notification [] detached_task ''in_progress'' (Some test_user)
     = (Inr False, [(ERROR, FailedStatusChange (Exception ''Database error''))])
   \<and> send_task_assignment_notification [] detached_task test_user
     = (Inr False, [(ERROR, FailedAssignment (Exception ''Database error''))])
   \<and> send_task_unassignment_notification [] detached_task test_user
     = (Inr False, [(ERROR, FailedUnassignment (Exception ''Database error''))])
   \<and> send_task_status_change_notification [] loaded_task ''in_progress'' None
     = (Inr True, [(DEBUG, NoUserAssigned 1)])"
  by (simp add: send_task_status_change_notification_def send_task_assignment_notification_def
      send_task_unassignment_notification_def status_change_try_def assignment_try_def
      unassignment_try_def and_then_def detached_task_def loaded_task_def test_user_def)

end
